theory Spec2Isabelle
  imports Complex_Main
begin

section \<open>Values of the scene payload\<close>

text \<open>
  A JavaScript number is an IEEE 754 double. \<open>Finite r\<close> is the double whose value is
  the rational \<open>r\<close> (\<open>Finite 0\<close> is the positive zero), \<open>NegZero\<close> is the negative
  zero, \<open>PosInf\<close> and \<open>NegInf\<close> are the infinities (\<open>JSON.parse\<close> yields one for a
  literal out of range, such as \<open>1e999\<close>), and \<open>NaN\<close> is the result of converting
  \<open>undefined\<close> to a number.
\<close>

datatype number = Finite rat | NegZero | PosInf | NegInf | NaN

text \<open>
  \<open>buildSceneFromData\<close> receives \<open>sceneData: any\<close>, the result of \<open>JSON.parse\<close>.
  A JavaScript value is modelled by the datatype \<open>js\<close>: the JSON values and
  \<open>undefined\<close>, which reading an absent property yields. The list of an \<open>Obj\<close>
  holds the own properties of the object, looked up by name.
\<close>

datatype js =
    Undefined
  | Null
  | Bool bool
  | Num number
  | Str string
  | Arr "js list"
  | Obj "(string \<times> js) list"

text \<open>
  Reading a property \<open>v.k\<close>. On \<open>undefined\<close> and \<open>null\<close> it throws a TypeError
  (\<open>None\<close>); on an object it yields the property or \<open>undefined\<close>; on any other value
  the names the program reads (\<open>backgroundColor\<close>, \<open>objects\<close>, \<open>shape\<close>,
  \<open>color\<close>, \<open>position\<close>, \<open>scale\<close>, \<open>x\<close>, \<open>y\<close>, \<open>z\<close>) are absent.
\<close>

fun get :: "js \<Rightarrow> string \<Rightarrow> js option" where
  "get Undefined k = None"
| "get Null k = None"
| "get (Obj kvs) k = Some (case map_of kvs k of None \<Rightarrow> Undefined | Some v \<Rightarrow> v)"
| "get v k = Some Undefined"

text \<open>
  Truthiness, as the operator \<open>||\<close> of line 405 tests it.
\<close>

fun truthy :: "js \<Rightarrow> bool" where
  "truthy Undefined = False"
| "truthy Null = False"
| "truthy (Bool b) = b"
| "truthy (Num n) = (n \<noteq> Finite 0 \<and> n \<noteq> NegZero \<and> n \<noteq> NaN)"
| "truthy (Str s) = (s \<noteq> [])"
| "truthy (Arr vs) = True"
| "truthy (Obj kvs) = True"

text \<open>
  \<open>ToNumber\<close>, applied by \<open>/\<close> and \<open>Math.max\<close> to their operands. The conversion of
  a string, an array or an object to a number is the language's own string parsing; it
  is the parameter \<open>coerce\<close> of the model.
\<close>

fun ToNumber :: "(js \<Rightarrow> number) \<Rightarrow> js \<Rightarrow> number" where
  "ToNumber coerce (Num n) = n"
| "ToNumber coerce Undefined = NaN"
| "ToNumber coerce Null = Finite 0"
| "ToNumber coerce (Bool b) = Finite (if b then 1 else 0)"
| "ToNumber coerce v = coerce v"

text \<open>
  The program divides by the literals 2 and 4 only.
\<close>

datatype divisor = Two | Four

fun divisor_value :: "divisor \<Rightarrow> rat" where
  "divisor_value Two = 2"
| "divisor_value Four = 4"

text \<open>Rounding a rational to the nearest integer, a tie going to the even one.\<close>

definition round_half_even :: "rat \<Rightarrow> int" where
  "round_half_even q =
     (let f = \<lfloor>q\<rfloor>; t = q - of_int f
      in if t < 1 / 2 then f
         else if 1 / 2 < t then f + 1
         else if even f then f
         else f + 1)"

text \<open>
  The doubles below 2 to the power -1022 in magnitude are the integer multiples of
  2 to the power -1074, the smallest positive double.
\<close>

definition subnormal_scale :: rat where
  "subnormal_scale = 2 ^ 1074"

text \<open>
  \<open>a / 2\<close> and \<open>a / 4\<close> on doubles, rounded to nearest, ties to even. Dividing a
  double by 2 or 4 only lowers its exponent, so the exact quotient is a double unless
  it falls below 2 to the power -1022 in magnitude and is no multiple of 2 to the power -1074;
  there (underflow) it is rounded to a multiple of 2 to the power -1074, and a negative
  quotient that rounds to zero gives the negative zero. Rounding every quotient to a
  multiple of 2 to the power -1074 therefore gives the double that the division yields.
\<close>

fun divide_by :: "number \<Rightarrow> divisor \<Rightarrow> number" where
  "divide_by (Finite r) d =
     (let n = round_half_even (r / divisor_value d * subnormal_scale)
      in if n = 0 \<and> r < 0 then NegZero else Finite (of_int n / subnormal_scale))"
| "divide_by NegZero d = NegZero"
| "divide_by PosInf d = PosInf"
| "divide_by NegInf d = NegInf"
| "divide_by NaN d = NaN"

text \<open>
  The larger of two numbers as \<open>Math.max\<close> compares them: \<open>NaN\<close> as soon as one is
  \<open>NaN\<close>, and the positive zero larger than the negative zero.
\<close>

fun max2 :: "number \<Rightarrow> number \<Rightarrow> number" where
  "max2 NaN b = NaN"
| "max2 a NaN = NaN"
| "max2 PosInf b = PosInf"
| "max2 a PosInf = PosInf"
| "max2 NegInf b = b"
| "max2 a NegInf = a"
| "max2 NegZero NegZero = NegZero"
| "max2 NegZero (Finite r) = (if 0 \<le> r then Finite r else NegZero)"
| "max2 (Finite r) NegZero = (if 0 \<le> r then Finite r else NegZero)"
| "max2 (Finite a) (Finite b) = Finite (max a b)"

text \<open>\<open>Math.max(a, b, c)\<close> on the converted arguments.\<close>

definition Math_max :: "number \<Rightarrow> number \<Rightarrow> number \<Rightarrow> number" where
  "Math_max a b c = max2 (max2 a b) c"

section \<open>The scene graph\<close>

text \<open>
  The objects of the 3D library. \<open>THREE_Color v\<close> is the color that
  \<open>new THREE.Color(v)\<close> constructs, or that \<open>set(v)\<close> gives. A geometry is modelled
  by its parameters, a material by its color and its two constants.
\<close>

datatype color = THREE_Color js

datatype geometry =
    BoxGeometry js js js
  | SphereGeometry number nat nat
  | ConeGeometry number js nat
  | CylinderGeometry number number js nat
  | TorusGeometry number number nat nat

text \<open>
  A dimension that the program passes as it reads it from the payload: the constructors
  of the library declare the default 1 for it, which JavaScript takes when the argument
  is \<open>undefined\<close>.
\<close>

definition dimension :: "js \<Rightarrow> js" where
  "dimension v = (if v = Undefined then Num (Finite 1) else v)"

record material =
  color :: color
  roughness :: rat
  metalness :: rat

text \<open>
  \<open>new THREE.MeshStandardMaterial({color: c, roughness: r, metalness: m})\<close>: the
  material starts white (\<open>0xffffff\<close>) and its color is set from \<open>c\<close>, unless \<open>c\<close> is
  \<open>undefined\<close>, a parameter the library skips.
\<close>

definition MeshStandardMaterial :: "js \<Rightarrow> rat \<Rightarrow> rat \<Rightarrow> material" where
  "MeshStandardMaterial c r m =
     \<lparr>color = (if c = Undefined then THREE_Color (Num (Finite 16777215)) else THREE_Color c),
      roughness = r, metalness = m\<rparr>"

text \<open>
  The literal \<open>0.5\<close> denotes the double \<open>1/2\<close>; the literal \<open>0.1\<close> denotes the double
  nearest to one tenth, 3602879701896397 divided by 2 to the power 55.
\<close>

definition literal_0_5 :: rat where
  "literal_0_5 = 1 / 2"

definition literal_0_1 :: rat where
  "literal_0_1 = 3602879701896397 / 36028797018963968"

text \<open>
  A mesh: \<open>new THREE.Mesh(geometry, material)\<close> starts at the origin with the identity
  rotation (Euler angles 0, 0, 0) and the unit scale, the defaults of the library.
\<close>

record mesh =
  geometry :: geometry
  material :: material
  position :: "js \<times> js \<times> js"
  rotation :: "rat \<times> rat \<times> rat"
  scaling :: "rat \<times> rat \<times> rat"

definition THREE_Mesh :: "geometry \<Rightarrow> material \<Rightarrow> mesh" where
  "THREE_Mesh g m =
     \<lparr>geometry = g, material = m, position = (Num (Finite 0), Num (Finite 0), Num (Finite 0)),
      rotation = (0, 0, 0), scaling = (1, 1, 1)\<rparr>"

text \<open>
  \<open>position.set(x, y, z)\<close> of the library's vector: it keeps the current third
  component when \<open>z\<close> is \<open>undefined\<close>, and stores the others as they are.
\<close>

fun Vector3_set :: "js \<Rightarrow> js \<Rightarrow> js \<Rightarrow> js \<times> js \<times> js \<Rightarrow> js \<times> js \<times> js" where
  "Vector3_set x y z (cx, cy, cz) = (x, y, (if z = Undefined then cz else z))"

record image =
  mimeType :: string
  data :: "string option"

text \<open>
  The module-level state and the parts of the page the handlers write:
  \<open>children\<close> is \<open>generatedContentGroup.children\<close>, \<open>background\<close> is
  \<open>scene.background\<close>, \<open>download_disabled\<close> is \<open>downloadToggleBtn.disabled\<close>,
  \<open>prompt_value\<close> is \<open>promptInput.value\<close>, \<open>loading\<close> is what \<open>setLoading\<close> last
  set, \<open>error_text\<close> and \<open>error_shown\<close> are the text and the display of
  \<open>errorMessageDiv\<close>, \<open>modal_shown\<close> is the display of \<open>apiKeyModal\<close>, and
  \<open>ai\<close> holds the key of the client when there is one.
\<close>

record app =
  ai :: "string option"
  prompt_value :: string
  uploadedImage :: "image option"
  children :: "mesh list"
  background :: color
  download_disabled :: bool
  loading :: bool
  error_text :: string
  error_shown :: bool
  modal_shown :: bool
  preview_src :: string
  preview_shown :: bool
  upload_button_shown :: bool

section \<open>UI utility functions\<close>

definition setLoading :: "bool \<Rightarrow> app \<Rightarrow> app" where
  "setLoading isLoading st = st\<lparr>loading := isLoading\<rparr>"

definition showError :: "string \<Rightarrow> app \<Rightarrow> app" where
  "showError message st = st\<lparr>error_text := message, error_shown := True\<rparr>"

definition hideError :: "app \<Rightarrow> app" where
  "hideError st = st\<lparr>error_shown := False\<rparr>"

section \<open>buildSceneFromData\<close>

text \<open>
  The callback of \<open>forEach\<close> (lines 408 to 440) on one element: it throws a TypeError,
  returns without adding a mesh, or adds one mesh to the group.
\<close>

datatype 'a step = Threw | Skipped | Built 'a

text \<open>The \<open>switch\<close> on \<open>obj.shape\<close> (lines 411 to 429), \<open>s\<close> being \<open>obj.scale\<close>.\<close>

definition make_geometry :: "(js \<Rightarrow> number) \<Rightarrow> js \<Rightarrow> js \<Rightarrow> geometry step" where
  "make_geometry coerce shape s =
     (if shape = Str ''box'' then
        (case (get s ''x'', get s ''y'', get s ''z'') of
           (Some x, Some y, Some z) \<Rightarrow> Built (BoxGeometry (dimension x) (dimension y) (dimension z))
         | _ \<Rightarrow> Threw)
      else if shape = Str ''sphere'' then
        (case (get s ''x'', get s ''y'', get s ''z'') of
           (Some x, Some y, Some z) \<Rightarrow>
             Built (SphereGeometry
               (divide_by (Math_max (ToNumber coerce x) (ToNumber coerce y) (ToNumber coerce z)) Two)
               32 16)
         | _ \<Rightarrow> Threw)
      else if shape = Str ''cone'' then
        (case (get s ''x'', get s ''y'') of
           (Some x, Some y) \<Rightarrow> Built (ConeGeometry (divide_by (ToNumber coerce x) Two) (dimension y) 32)
         | _ \<Rightarrow> Threw)
      else if shape = Str ''cylinder'' then
        (case (get s ''x'', get s ''z'', get s ''y'') of
           (Some x, Some z, Some y) \<Rightarrow>
             Built (CylinderGeometry (divide_by (ToNumber coerce x) Two)
               (divide_by (ToNumber coerce z) Two) (dimension y) 32)
         | _ \<Rightarrow> Threw)
      else if shape = Str ''torus'' then
        (case (get s ''x'', get s ''y'') of
           (Some x, Some y) \<Rightarrow>
             Built (TorusGeometry (divide_by (ToNumber coerce x) Two)
               (divide_by (ToNumber coerce y) Four) 16 100)
         | _ \<Rightarrow> Threw)
      else Skipped)"

definition add_object :: "(js \<Rightarrow> number) \<Rightarrow> js \<Rightarrow> mesh step" where
  "add_object coerce obj =
     (case get obj ''scale'' of
        None \<Rightarrow> Threw
      | Some s \<Rightarrow>
          (case get obj ''shape'' of
             None \<Rightarrow> Threw
           | Some shape \<Rightarrow>
               (case make_geometry coerce shape s of
                  Threw \<Rightarrow> Threw
                | Skipped \<Rightarrow> Skipped
                | Built g \<Rightarrow>
                    (case get obj ''color'' of
                       None \<Rightarrow> Threw
                     | Some c \<Rightarrow>
                         (let m = MeshStandardMaterial c literal_0_5 literal_0_1;
                              msh = THREE_Mesh g m
                          in case get obj ''position'' of
                               None \<Rightarrow> Threw
                             | Some p \<Rightarrow>
                                 (case (get p ''x'', get p ''y'', get p ''z'') of
                                    (Some px, Some py, Some pz) \<Rightarrow>
                                      Built (msh\<lparr>position := Vector3_set px py pz (position msh)\<rparr>)
                                  | _ \<Rightarrow> Threw))))))"

text \<open>
  \<open>forEach\<close> over the elements, from the group's current children: the children when
  the loop ends, and whether it ended normally (\<open>False\<close>: a callback threw, and the
  elements after it were not visited).
\<close>

fun forEach :: "(js \<Rightarrow> number) \<Rightarrow> js list \<Rightarrow> mesh list \<Rightarrow> mesh list \<times> bool" where
  "forEach coerce [] ch = (ch, True)"
| "forEach coerce (obj # objs) ch =
     (case add_object coerce obj of
        Threw \<Rightarrow> (ch, False)
      | Skipped \<Rightarrow> forEach coerce objs ch
      | Built m \<Rightarrow> forEach coerce objs (ch @ [m]))"

text \<open>The loop of lines 400 to 402: remove the first child while there is one.\<close>

fun clear_children :: "mesh list \<Rightarrow> mesh list" where
  "clear_children [] = []"
| "clear_children (c # cs) = clear_children cs"

text \<open>
  How a call ends: normally, or with a TypeError thrown; in both cases with the state
  the call leaves behind.
\<close>

datatype outcome = Completed app | TypeError app

fun state_of :: "outcome \<Rightarrow> app" where
  "state_of (Completed st) = st"
| "state_of (TypeError st) = st"

fun completed :: "outcome \<Rightarrow> bool" where
  "completed (Completed st) = True"
| "completed (TypeError st) = False"

definition default_background :: js where
  "default_background = Num (Finite 1118481)"

definition buildSceneFromData :: "(js \<Rightarrow> number) \<Rightarrow> app \<Rightarrow> js \<Rightarrow> outcome" where
  "buildSceneFromData coerce st sceneData =
     (let st1 = st\<lparr>children := clear_children (children st)\<rparr> in
      case get sceneData ''backgroundColor'' of
        None \<Rightarrow> TypeError st1
      | Some bg \<Rightarrow>
          (let st2 = st1\<lparr>background := THREE_Color (if truthy bg then bg else default_background)\<rparr> in
           case get sceneData ''objects'' of
             Some (Arr objs) \<Rightarrow>
               (case forEach coerce objs (children st2) of
                  (ch, False) \<Rightarrow> TypeError (st2\<lparr>children := ch\<rparr>)
                | (ch, True) \<Rightarrow>
                    (let st3 = st2\<lparr>children := ch\<rparr> in
                     Completed (if length objs > 0 then st3\<lparr>download_disabled := False\<rparr> else st3)))
           | _ \<Rightarrow> TypeError st2))"

section \<open>The scene contract\<close>

text \<open>
  The shapes of the \<open>switch\<close> (the \<open>enum\<close> of the response schema, line 61).
\<close>

definition recognized :: "js \<Rightarrow> bool" where
  "recognized shape =
     (shape = Str ''box'' \<or> shape = Str ''sphere'' \<or> shape = Str ''cone'' \<or>
      shape = Str ''cylinder'' \<or> shape = Str ''torus'')"

text \<open>The value of a property of an object literal, \<open>undefined\<close> when absent.\<close>

definition field :: "js \<Rightarrow> string \<Rightarrow> js" where
  "field v k = (case get v k of None \<Rightarrow> Undefined | Some w \<Rightarrow> w)"

fun is_object :: "js \<Rightarrow> bool" where
  "is_object (Obj kvs) = True"
| "is_object v = False"

fun is_string :: "js \<Rightarrow> bool" where
  "is_string (Str s) = True"
| "is_string v = False"

fun is_number :: "js \<Rightarrow> bool" where
  "is_number (Num n) = True"
| "is_number v = False"

text \<open>
  The response schema of lines 46 to 94, with every \<open>required\<close> property present and
  of its declared type. The \<open>enum\<close> of \<open>shape\<close> is left out: a descriptor whose shape
  is another string is what the \<open>default\<close> branch of the \<open>switch\<close> is for.
\<close>

definition valid_vector :: "js \<Rightarrow> bool" where
  "valid_vector v =
     (is_object v \<and> is_number (field v ''x'') \<and> is_number (field v ''y'') \<and>
      is_number (field v ''z''))"

definition valid_descriptor :: "js \<Rightarrow> bool" where
  "valid_descriptor obj =
     (is_object obj \<and> is_string (field obj ''shape'') \<and> is_string (field obj ''color'') \<and>
      valid_vector (field obj ''position'') \<and> valid_vector (field obj ''scale''))"

text \<open>The elements of \<open>sceneData.objects\<close> when it is an array.\<close>

definition objects_of :: "js \<Rightarrow> js list" where
  "objects_of sceneData = (case field sceneData ''objects'' of Arr objs \<Rightarrow> objs | _ \<Rightarrow> [])"

definition valid_scene :: "js \<Rightarrow> bool" where
  "valid_scene sceneData =
     (is_object sceneData \<and> is_string (field sceneData ''backgroundColor'') \<and>
      (case field sceneData ''objects'' of
         Arr objs \<Rightarrow> list_all valid_descriptor objs
       | _ \<Rightarrow> False))"

section \<open>handleGenerateClick\<close>

text \<open>
  The parts of a request to the generative service (lines 238 to 247).
\<close>

datatype part = InlineData string "string option" | Text string

text \<open>
  What the awaited call and \<open>JSON.parse\<close> give: the call rejects (service or network
  error), the response text is not JSON (\<open>JSON.parse\<close> throws), or the parsed value.
\<close>

datatype response = ServiceError | BadJSON | Parsed js

definition missing_key_message :: string where
  "missing_key_message = ''Please set your Gemini API key in the settings before generating.''"

definition empty_request_message :: string where
  "empty_request_message = ''Please enter a prompt or upload an image to describe the scene.''"

definition failure_message :: string where
  "failure_message = ''Failed to generate the scene. The AI may be unavailable, your API key may be invalid, or the request could not be processed. Please check your key and try again.''"

definition request_contents :: "app \<Rightarrow> part list" where
  "request_contents st =
     (case uploadedImage st of
        None \<Rightarrow> []
      | Some img \<Rightarrow> [InlineData (mimeType img) (data img)]) @ [Text (prompt_value st)]"

text \<open>
  Lines 221 to 247, up to the call of the service: the state, and the request that is
  sent (\<open>None\<close> when the handler returns without calling the service).
\<close>

definition handleGenerateClick_begin :: "app \<Rightarrow> app \<times> part list option" where
  "handleGenerateClick_begin st =
     (case ai st of
        None \<Rightarrow> ((showError missing_key_message st)\<lparr>modal_shown := True\<rparr>, None)
      | Some key \<Rightarrow>
          if prompt_value st = [] \<and> uploadedImage st = None
          then (showError empty_request_message st, None)
          else (let st1 = (hideError (setLoading True st))\<lparr>download_disabled := True\<rparr>
                in (st1, Some (request_contents st1))))"

text \<open>Lines 266 to 273, once the call has settled: \<open>try\<close>, \<open>catch\<close>, \<open>finally\<close>.\<close>

definition handleGenerateClick_resume :: "(js \<Rightarrow> number) \<Rightarrow> response \<Rightarrow> app \<Rightarrow> app" where
  "handleGenerateClick_resume coerce r st =
     setLoading False
       (case r of
          ServiceError \<Rightarrow> showError failure_message st
        | BadJSON \<Rightarrow> showError failure_message st
        | Parsed sceneData \<Rightarrow>
            (case buildSceneFromData coerce st sceneData of
               Completed st' \<Rightarrow> st'
             | TypeError st' \<Rightarrow> showError failure_message st'))"

text \<open>
  The whole handler, the service being a function from the request to what comes back.
  The second component is the request the service received, if any.
\<close>

definition handleGenerateClick ::
  "(part list \<Rightarrow> response) \<Rightarrow> (js \<Rightarrow> number) \<Rightarrow> app \<Rightarrow> app \<times> part list option" where
  "handleGenerateClick service coerce st =
     (case handleGenerateClick_begin st of
        (st1, None) \<Rightarrow> (st1, None)
      | (st1, Some req) \<Rightarrow> (handleGenerateClick_resume coerce (service req) st1, Some req))"

section \<open>handleImageUpload\<close>

record image_file =
  file_name :: string
  file_type :: string

definition accepted_types :: "string list" where
  "accepted_types = [''image/jpeg'', ''image/png'', ''image/webp'']"

definition invalid_image_message :: string where
  "invalid_image_message = ''Please upload a valid image file (JPG, PNG, WebP).''"

text \<open>\<open>result.split(',')\<close>: the pieces between the separators, at least one piece.\<close>

fun js_split :: "char \<Rightarrow> string \<Rightarrow> string list" where
  "js_split sep [] = [[]]"
| "js_split sep (c # cs) =
     (if c = sep then [] # js_split sep cs
      else (case js_split sep cs of
              [] \<Rightarrow> [[c]]
            | p # ps \<Rightarrow> (c # p) # ps))"

text \<open>
  Lines 279 to 288 and 303: the state, and the file whose reading as a data URL was
  started (\<open>None\<close> when the handler returns without reading).
\<close>

definition handleImageUpload :: "image_file option \<Rightarrow> app \<Rightarrow> app \<times> image_file option" where
  "handleImageUpload selected st =
     (case selected of
        None \<Rightarrow> (st, None)
      | Some f \<Rightarrow>
          if file_type f \<notin> set accepted_types
          then (showError invalid_image_message st, None)
          else (st, Some f))"

text \<open>
  The \<open>onload\<close> callback of lines 290 to 302, \<open>result\<close> being the data URL the reader
  produced. The second element of the destructured array is \<open>undefined\<close> (\<open>None\<close>)
  when the result has no comma.
\<close>

definition reader_onload :: "image_file \<Rightarrow> string \<Rightarrow> app \<Rightarrow> app" where
  "reader_onload f result st =
     (let pieces = js_split CHR '','' result;
          base64Data = (if length pieces > 1 then Some (pieces ! 1) else None)
      in st\<lparr>uploadedImage := Some \<lparr>mimeType = file_type f, data = base64Data\<rparr>,
            preview_src := result, preview_shown := True, upload_button_shown := False\<rparr>)"

definition handleRemoveImage :: "app \<Rightarrow> app" where
  "handleRemoveImage st =
     st\<lparr>uploadedImage := None, preview_shown := False, preview_src := ''#'',
        upload_button_shown := True\<rparr>"

text \<open>
  The data URL that \<open>readAsDataURL\<close> produces for a file of MIME type \<open>mime\<close> whose
  base64 encoding is \<open>payload\<close>.
\<close>

definition data_url :: "string \<Rightarrow> string \<Rightarrow> string" where
  "data_url mime payload = ''data:'' @ mime @ '';base64,'' @ payload"

section \<open>Predicates and sample values for the properties\<close>

text \<open>
  A generation attempt fails when the \<open>catch\<close> block of \<open>handleGenerateClick\<close> runs:
  the call rejects, \<open>JSON.parse\<close> throws, or \<open>buildSceneFromData\<close> throws.
\<close>

definition fails :: "(js \<Rightarrow> number) \<Rightarrow> response \<Rightarrow> app \<Rightarrow> bool" where
  "fails coerce r st =
     (case r of
        ServiceError \<Rightarrow> True
      | BadJSON \<Rightarrow> True
      | Parsed sceneData \<Rightarrow> \<not> completed (buildSceneFromData coerce st sceneData))"

text \<open>
  What a mesh carries from the descriptor it was built from: the position, the
  material's colour and constants, and the transform the constructor left untouched.
\<close>

definition carries :: "js \<Rightarrow> mesh \<Rightarrow> bool" where
  "carries obj m =
     (position m = (field (field obj ''position'') ''x'', field (field obj ''position'') ''y'',
                    field (field obj ''position'') ''z'') \<and>
      rotation m = (0, 0, 0) \<and> scaling m = (1, 1, 1) \<and>
      color (material m) = THREE_Color (field obj ''color'') \<and>
      roughness (material m) = literal_0_5 \<and> metalness (material m) = literal_0_1)"

text \<open>Sample payloads and states, on which the theorems below are exercised.\<close>

definition vector :: "rat \<Rightarrow> rat \<Rightarrow> rat \<Rightarrow> js" where
  "vector x y z = Obj [(''x'', Num (Finite x)), (''y'', Num (Finite y)), (''z'', Num (Finite z))]"

definition descriptor :: "string \<Rightarrow> string \<Rightarrow> js \<Rightarrow> js \<Rightarrow> js" where
  "descriptor shape col pos scl =
     Obj [(''shape'', Str shape), (''color'', Str col), (''position'', pos), (''scale'', scl)]"

definition no_coercion :: "js \<Rightarrow> number" where
  "no_coercion v = NaN"

definition example_mesh :: mesh where
  "example_mesh =
     (THREE_Mesh (BoxGeometry (Num (Finite 1)) (Num (Finite 1)) (Num (Finite 1)))
        (MeshStandardMaterial (Str ''#ff0000'') literal_0_5 literal_0_1))
     \<lparr>position := (Num (Finite 0), Num (Finite 1), Num (Finite 0))\<rparr>"

definition example_app :: app where
  "example_app =
     \<lparr>ai = Some ''key'', prompt_value = ''a red cube'', uploadedImage = None,
      children = [example_mesh], background = THREE_Color (Num (Finite 1118481)),
      download_disabled = False, loading = False, error_text = [], error_shown = False,
      modal_shown = False, preview_src = [], preview_shown = False,
      upload_button_shown = True\<rparr>"

definition example_scene :: js where
  "example_scene =
     Obj [(''backgroundColor'', Str ''#101020''),
          (''objects'', Arr [
             descriptor ''box'' ''#ff0000'' (vector 0 1 0) (vector 2 3 4),
             descriptor ''pyramid'' ''#00ff00'' (vector 1 0 0) (vector 1 1 1),
             descriptor ''sphere'' ''#0000ff'' (vector 0 0 (-2)) (vector 2 4 6)])]"

definition scene_without_objects :: js where
  "scene_without_objects = Obj [(''backgroundColor'', Str ''#202020'')]"

definition scene_without_background :: js where
  "scene_without_background = Obj [(''objects'', Arr [])]"

definition scene_of_unrecognized :: js where
  "scene_of_unrecognized =
     Obj [(''backgroundColor'', Str ''#101020''),
          (''objects'', Arr [descriptor ''pyramid'' ''#00ff00'' (vector 1 0 0) (vector 1 1 1)])]"

definition scene_with_invalid_background :: js where
  "scene_with_invalid_background =
     Obj [(''backgroundColor'', Str ''not a color''), (''objects'', Arr [])]"

definition example_file :: image_file where
  "example_file = \<lparr>file_name = ''photo.png'', file_type = ''image/png''\<rparr>"

definition example_pdf :: image_file where
  "example_pdf = \<lparr>file_name = ''notes.pdf'', file_type = ''application/pdf''\<rparr>"

section \<open>Lemmas on the arithmetic\<close>

declare divide_by.simps(1) [simp del]

lemma round_half_even_of_int: "round_half_even (of_int k) = k"
  by (simp add: round_half_even_def)

lemma subnormal_scale_pos: "0 < subnormal_scale"
  by (simp add: subnormal_scale_def)

text \<open>
  When the exact quotient is a multiple of 2 to the power -1074 (no underflow), the
  division yields it.
\<close>

lemma divide_by_exact:
  assumes "r / divisor_value d * subnormal_scale = of_int k"
  shows "divide_by (Finite r) d = Finite (r / divisor_value d)"
proof -
  have d: "0 < divisor_value d" by (cases d) simp_all
  have n: "round_half_even (r / divisor_value d * subnormal_scale) = k"
    unfolding assms by (rule round_half_even_of_int)
  have z: "\<not> (k = 0 \<and> r < 0)"
  proof
    assume "k = 0 \<and> r < 0"
    with assms have "r / divisor_value d * subnormal_scale = 0" "r < 0" by simp_all
    with d subnormal_scale_pos show False by (simp add: divide_eq_0_iff)
  qed
  have v: "of_int k / subnormal_scale = r / divisor_value d"
    using assms subnormal_scale_pos by (simp add: field_simps)
  show ?thesis using n z v by (simp add: divide_by.simps Let_def)
qed

lemma divide_by_integer:
  assumes "r / divisor_value d = of_int k"
  shows "divide_by (Finite r) d = Finite (of_int k)"
proof -
  have "r / divisor_value d * subnormal_scale = of_int (k * 2 ^ 1074)"
    by (simp add: assms subnormal_scale_def)
  from divide_by_exact[OF this] assms show ?thesis by simp
qed

text \<open>
  At underflow the quotient is rounded: the smallest positive double, \<open>5e-324\<close>,
  divided by 4 is zero.
\<close>

lemma floor_quarter: "\<lfloor>1 / 4 :: rat\<rfloor> = 0"
  by (rule floor_unique) simp_all

lemma round_half_even_quarter: "round_half_even (1 / 4) = 0"
  by (simp add: round_half_even_def floor_quarter)

lemma smallest_double_quartered: "divide_by (Finite (1 / 2 ^ 1074)) Four = Finite 0"
proof -
  have "(1 / 2 ^ 1074 :: rat) / divisor_value Four * subnormal_scale = 1 / 4"
    by (simp add: subnormal_scale_def)
  then show ?thesis
    unfolding divide_by.simps by (simp only: round_half_even_quarter Let_def) simp
qed

section \<open>Lemmas on the callback and the loop\<close>

lemma clear_children_empty: "clear_children ch = []"
  by (induction ch) simp_all

lemma get_vec:
  "valid_vector v \<Longrightarrow>
   \<exists>x y z. get v ''x'' = Some (Num x) \<and> get v ''y'' = Some (Num y) \<and> get v ''z'' = Some (Num z)"
  unfolding valid_vector_def field_def
  by (cases v; simp; cases "get v ''x''"; cases "get v ''y''"; cases "get v ''z''"; simp)
    (metis is_number.elims(2))

lemma make_geometry_skipped: "\<not> recognized shape \<Longrightarrow> make_geometry c shape s = Skipped"
  by (simp add: make_geometry_def recognized_def)

lemma make_geometry_built:
  assumes "recognized shape" "get s ''x'' = Some x" "get s ''y'' = Some y" "get s ''z'' = Some z"
  shows "\<exists>g. make_geometry c shape s = Built g"
  using assms by (auto simp add: make_geometry_def recognized_def)

lemma make_geometry_numbers:
  assumes "get s ''x'' = Some (Num x)" "get s ''y'' = Some (Num y)" "get s ''z'' = Some (Num z)"
  shows "make_geometry c shape s =
     (if shape = Str ''box'' then Built (BoxGeometry (Num x) (Num y) (Num z))
      else if shape = Str ''sphere'' then
        Built (SphereGeometry (divide_by (Math_max x y z) Two) 32 16)
      else if shape = Str ''cone'' then Built (ConeGeometry (divide_by x Two) (Num y) 32)
      else if shape = Str ''cylinder'' then
        Built (CylinderGeometry (divide_by x Two) (divide_by z Two) (Num y) 32)
      else if shape = Str ''torus'' then
        Built (TorusGeometry (divide_by x Two) (divide_by y Four) 16 100)
      else Skipped)"
  by (simp add: make_geometry_def assms dimension_def)

lemma add_object_skipped:
  "is_object obj \<Longrightarrow> \<not> recognized (field obj ''shape'') \<Longrightarrow> add_object c obj = Skipped"
  by (cases obj) (simp_all add: add_object_def field_def make_geometry_skipped)

text \<open>
  On a descriptor of the contract the callback throws nowhere: its result is decided by
  the \<open>switch\<close>, and the mesh it builds carries the descriptor.
\<close>

lemma add_object_valid:
  assumes "valid_descriptor obj"
  shows "map_step geometry (add_object c obj) =
           make_geometry c (field obj ''shape'') (field obj ''scale'')"
    and "add_object c obj = Built m \<Longrightarrow> carries obj m"
proof -
  from assms(1) obtain kvs where obj: "obj = Obj kvs"
    by (cases obj) (simp_all add: valid_descriptor_def)
  from assms(1) have vp: "valid_vector (field obj ''position'')"
    and vc: "is_string (field obj ''color'')"
    by (simp_all add: valid_descriptor_def)
  obtain s where s: "get obj ''scale'' = Some s" "field obj ''scale'' = s"
    using obj by (simp add: field_def)
  obtain p where p: "get obj ''position'' = Some p" "field obj ''position'' = p"
    using obj by (simp add: field_def)
  obtain sh where sh: "get obj ''shape'' = Some sh" "field obj ''shape'' = sh"
    using obj by (simp add: field_def)
  obtain col where col: "get obj ''color'' = Some col" "field obj ''color'' = col"
    using obj by (simp add: field_def)
  from vc col have cu: "col \<noteq> Undefined" by (cases col) simp_all
  from vp p get_vec obtain px py pz where
    px: "get p ''x'' = Some (Num px)" "get p ''y'' = Some (Num py)" "get p ''z'' = Some (Num pz)"
    by blast
  from px p obj have fx: "field p ''x'' = Num px" "field p ''y'' = Num py" "field p ''z'' = Num pz"
    by (simp_all add: field_def)
  show "map_step geometry (add_object c obj) =
           make_geometry c (field obj ''shape'') (field obj ''scale'')"
    by (cases "make_geometry c sh s") (simp_all add: add_object_def s sh col p px THREE_Mesh_def)
  show "carries obj m" if "add_object c obj = Built m"
    using that
    by (cases "make_geometry c sh s")
      (auto simp add: add_object_def s sh col p px fx cu carries_def THREE_Mesh_def
        MeshStandardMaterial_def)
qed

lemma add_object_built:
  assumes "valid_descriptor obj" "recognized (field obj ''shape'')"
  shows "\<exists>m. add_object c obj = Built m"
proof -
  from assms(1) have vs: "valid_vector (field obj ''scale'')"
    by (simp add: valid_descriptor_def)
  from get_vec[OF vs] obtain x y z where
    sx: "get (field obj ''scale'') ''x'' = Some (Num x)"
      "get (field obj ''scale'') ''y'' = Some (Num y)"
      "get (field obj ''scale'') ''z'' = Some (Num z)"
    by blast
  from make_geometry_built[OF assms(2) sx, of c] obtain g where
    "make_geometry c (field obj ''shape'') (field obj ''scale'') = Built g" by blast
  with add_object_valid(1)[OF assms(1), of c] have "map_step geometry (add_object c obj) = Built g"
    by simp
  then show ?thesis by (cases "add_object c obj") simp_all
qed

lemma forEach_valid:
  "list_all valid_descriptor objs \<Longrightarrow>
   \<exists>ms. forEach c objs ch = (ch @ ms, True) \<and>
        list_all2 carries (filter (\<lambda>obj. recognized (field obj ''shape'')) objs) ms"
proof (induction objs arbitrary: ch)
  case Nil
  then show ?case by simp
next
  case (Cons obj objs)
  then have v: "valid_descriptor obj" and vs: "list_all valid_descriptor objs" by simp_all
  show ?case
  proof (cases "recognized (field obj ''shape'')")
    case True
    from add_object_built[OF v True] obtain m where m: "add_object c obj = Built m" by blast
    from add_object_valid(2)[OF v m] have cm: "carries obj m" .
    from Cons.IH[OF vs, of "ch @ [m]"] obtain ms where
      "forEach c objs (ch @ [m]) = ((ch @ [m]) @ ms, True)"
      "list_all2 carries (filter (\<lambda>obj. recognized (field obj ''shape'')) objs) ms" by blast
    then show ?thesis using True m cm by (intro exI[of _ "m # ms"]) simp
  next
    case False
    from v have "is_object obj" by (simp add: valid_descriptor_def)
    from add_object_skipped[OF this False] have "add_object c obj = Skipped" .
    then show ?thesis using False Cons.IH[OF vs, of ch] by simp
  qed
qed

section \<open>Lemmas on buildSceneFromData and the handlers\<close>

lemma children_build:
  "children (state_of (buildSceneFromData c st d)) =
     (case get d ''backgroundColor'' of None \<Rightarrow> []
      | Some bg \<Rightarrow> fst (forEach c (objects_of d) []))"
  unfolding buildSceneFromData_def objects_of_def field_def
  by (auto simp add: clear_children_empty Let_def
      split: option.splits js.splits prod.splits bool.splits)

text \<open>On a description of the contract the call completes, with the meshes of the loop.\<close>

lemma valid_scene_build:
  assumes "valid_scene d"
  shows "completed (buildSceneFromData c st d)"
    and "list_all2 carries (filter (\<lambda>obj. recognized (field obj ''shape'')) (objects_of d))
           (children (state_of (buildSceneFromData c st d)))"
proof -
  from assms(1) obtain kvs where d: "d = Obj kvs"
    by (cases d) (simp_all add: valid_scene_def)
  from assms(1) obtain objs where
    objs: "field d ''objects'' = Arr objs" "list_all valid_descriptor objs"
    by (auto simp add: valid_scene_def split: js.splits)
  from objs(1) d have g: "get d ''objects'' = Some (Arr objs)" by (simp add: field_def)
  from d obtain bg where bg: "get d ''backgroundColor'' = Some bg" by simp
  from forEach_valid[OF objs(2), of c "[]"] obtain ms where
    ms: "forEach c objs [] = (ms, True)"
      "list_all2 carries (filter (\<lambda>obj. recognized (field obj ''shape'')) objs) ms"
    by auto
  have o: "objects_of d = objs" by (simp add: objects_of_def objs(1))
  show "completed (buildSceneFromData c st d)"
    by (simp add: buildSceneFromData_def bg g ms clear_children_empty Let_def)
  show "list_all2 carries (filter (\<lambda>obj. recognized (field obj ''shape'')) (objects_of d))
           (children (state_of (buildSceneFromData c st d)))"
    by (simp add: children_build bg o ms)
qed

lemma example_scene_valid: "valid_scene example_scene"
  by code_simp

lemma build_download:
  "download_disabled (state_of (buildSceneFromData c st d)) =
     (if completed (buildSceneFromData c st d) \<and> objects_of d \<noteq> [] then False
      else download_disabled st)"
proof (cases "get d ''backgroundColor''")
  case None
  then show ?thesis by (simp add: buildSceneFromData_def)
next
  case (Some bg)
  show ?thesis
  proof (cases "get d ''objects''")
    case None
    with Some show ?thesis by (simp add: buildSceneFromData_def)
  next
    case o: (Some v)
    show ?thesis
    proof (cases v)
      case (Arr objs)
      obtain ch ok where f: "forEach c objs [] = (ch, ok)" by (cases "forEach c objs []")
      have oo: "objects_of d = objs" using o Arr by (simp add: objects_of_def field_def)
      show ?thesis
        by (cases ok)
          (simp_all add: buildSceneFromData_def Some o Arr f oo clear_children_empty Let_def)
    qed (simp_all add: buildSceneFromData_def Some o)
  qed
qed

lemma begin_sent:
  assumes "handleGenerateClick_begin st = (st1, Some req)"
  shows "st1 = (hideError (setLoading True st))\<lparr>download_disabled := True\<rparr>"
proof (cases "ai st")
  case None
  with assms show ?thesis by (simp add: handleGenerateClick_begin_def)
next
  case (Some key)
  show ?thesis
  proof (cases "prompt_value st = [] \<and> uploadedImage st = None")
    case True
    with assms Some show ?thesis by (simp add: handleGenerateClick_begin_def)
  next
    case False
    with assms Some show ?thesis by (simp add: handleGenerateClick_begin_def Let_def)
  qed
qed

lemma begin_keeps:
  assumes "handleGenerateClick_begin st = (st1, Some req)"
  shows "children st1 = children st" "background st1 = background st" "download_disabled st1"
  by (simp_all add: begin_sent[OF assms] hideError_def setLoading_def)

lemma generate_sent:
  assumes "handleGenerateClick_begin st = (st1, Some req)"
  shows "fst (handleGenerateClick service c st) = handleGenerateClick_resume c (service req) st1"
  by (simp add: handleGenerateClick_def assms)

lemma resume_not_parsed:
  assumes "r = ServiceError \<or> r = BadJSON"
  shows "handleGenerateClick_resume c r st = setLoading False (showError failure_message st)"
  using assms by (auto simp add: handleGenerateClick_resume_def)

lemma resume_parsed:
  "handleGenerateClick_resume c (Parsed d) st =
     setLoading False
       (if completed (buildSceneFromData c st d) then state_of (buildSceneFromData c st d)
        else showError failure_message (state_of (buildSceneFromData c st d)))"
  by (cases "buildSceneFromData c st d") (simp_all add: handleGenerateClick_resume_def)

lemma resume_fails:
  assumes "fails c r st"
  shows "error_shown (handleGenerateClick_resume c r st) \<and>
   error_text (handleGenerateClick_resume c r st) = failure_message \<and>
   \<not> loading (handleGenerateClick_resume c r st)"
proof (cases r)
  case ServiceError
  then show ?thesis by (simp add: resume_not_parsed setLoading_def showError_def)
next
  case BadJSON
  then show ?thesis by (simp add: resume_not_parsed setLoading_def showError_def)
next
  case (Parsed d)
  with assms have "\<not> completed (buildSceneFromData c st d)" by (simp add: fails_def)
  with Parsed show ?thesis by (simp add: resume_parsed setLoading_def showError_def)
qed

lemma resume_download:
  "download_disabled (handleGenerateClick_resume c r st) =
     (case r of
        Parsed d \<Rightarrow>
          (if completed (buildSceneFromData c st d) \<and> objects_of d \<noteq> [] then False
           else download_disabled st)
      | _ \<Rightarrow> download_disabled st)"
proof (cases r)
  case ServiceError
  then show ?thesis by (simp add: resume_not_parsed setLoading_def showError_def)
next
  case BadJSON
  then show ?thesis by (simp add: resume_not_parsed setLoading_def showError_def)
next
  case (Parsed d)
  then show ?thesis
    using build_download[of c st d]
    by (simp add: resume_parsed setLoading_def showError_def)
qed

lemma example_begin:
  "handleGenerateClick_begin example_app =
     ((hideError (setLoading True example_app))\<lparr>download_disabled := True\<rparr>,
      Some [Text ''a red cube''])"
  by (simp add: handleGenerateClick_begin_def example_app_def Let_def request_contents_def
      hideError_def setLoading_def)

lemma js_split_none: "sep \<notin> set s \<Longrightarrow> js_split sep s = [s]"
proof (induction s)
  case Nil
  then show ?case by simp
next
  case (Cons a s)
  then have "a \<noteq> sep" "js_split sep s = [s]" by auto
  then show ?case by simp
qed

lemma js_split_two:
  "sep \<notin> set h \<Longrightarrow> sep \<notin> set p \<Longrightarrow> js_split sep (h @ sep # p) = [h, p]"
proof (induction h)
  case Nil
  then show ?case by (simp add: js_split_none)
next
  case (Cons a h)
  then have "a \<noteq> sep" "js_split sep (h @ sep # p) = [h, p]" by auto
  then show ?case by simp
qed

lemma data_url_split:
  assumes "CHR '','' \<notin> set mime" "CHR '','' \<notin> set payload"
  shows "js_split CHR '','' (data_url mime payload) = [''data:'' @ mime @ '';base64'', payload]"
proof -
  have e: "data_url mime payload = (''data:'' @ mime @ '';base64'') @ CHR '','' # payload"
    by (simp add: data_url_def)
  have n: "CHR '','' \<notin> set (''data:'' @ mime @ '';base64'')" using assms(1) by simp
  show ?thesis unfolding e by (rule js_split_two[OF n assms(2)])
qed

lemma accepted_no_comma: "mime \<in> set accepted_types \<Longrightarrow> CHR '','' \<notin> set mime"
  by (auto simp add: accepted_types_def)

section \<open>The claims\<close>

subsection \<open>C1: a failed generation and the scene graph\<close>

text \<open>
  Claim C1, as amended. Every generation attempt that was sent and fails (the call
  rejects, the response text is not JSON, or \<open>buildSceneFromData\<close> throws on the parsed
  payload) ends with the failure message shown and the loading state cleared. When the
  call rejected or the response text was not JSON, the meshes of the scene graph and its
  background are those of the state before the request.
\<close>

theorem failed_generation_scene:
  assumes "handleGenerateClick_begin st = (st1, Some req)"
    and "fails c (service req) st1"
  shows "error_shown (fst (handleGenerateClick service c st)) \<and>
     error_text (fst (handleGenerateClick service c st)) = failure_message \<and>
     \<not> loading (fst (handleGenerateClick service c st)) \<and>
     (service req = ServiceError \<or> service req = BadJSON \<longrightarrow>
        children (fst (handleGenerateClick service c st)) = children st \<and>
        background (fst (handleGenerateClick service c st)) = background st)"
proof -
  note h = generate_sent[OF assms(1), of service c]
  have a: "error_shown (fst (handleGenerateClick service c st)) \<and>
     error_text (fst (handleGenerateClick service c st)) = failure_message \<and>
     \<not> loading (fst (handleGenerateClick service c st))"
    unfolding h by (rule resume_fails[OF assms(2)])
  have b: "children (fst (handleGenerateClick service c st)) = children st \<and>
        background (fst (handleGenerateClick service c st)) = background st"
    if "service req = ServiceError \<or> service req = BadJSON"
    unfolding h resume_not_parsed[OF that]
    by (simp add: setLoading_def showError_def begin_keeps[OF assms(1)])
  from a b show ?thesis by blast
qed

text \<open>
  The amended claim on the sample state, the response text not being JSON: the failure
  is shown, and the mesh and the background of the sample state are still there.
\<close>

theorem failed_generation_scene_witness:
  "error_shown (fst (handleGenerateClick (\<lambda>req. BadJSON) no_coercion example_app)) \<and>
   error_text (fst (handleGenerateClick (\<lambda>req. BadJSON) no_coercion example_app)) = failure_message \<and>
   \<not> loading (fst (handleGenerateClick (\<lambda>req. BadJSON) no_coercion example_app)) \<and>
   children (fst (handleGenerateClick (\<lambda>req. BadJSON) no_coercion example_app)) = children example_app \<and>
   background (fst (handleGenerateClick (\<lambda>req. BadJSON) no_coercion example_app)) = background example_app"
proof -
  have f: "fails no_coercion ((\<lambda>req. BadJSON) [Text ''a red cube''])
             ((hideError (setLoading True example_app))\<lparr>download_disabled := True\<rparr>)"
    by (simp add: fails_def)
  from failed_generation_scene[OF example_begin f] show ?thesis by simp
qed

text \<open>
  The claim as stated fails on a payload without the \<open>objects\<close> field: the group is
  cleared (line 400) and the background replaced (line 405) before \<open>forEach\<close> throws
  on \<open>undefined\<close> (line 408), so the scene graph is not the one before the request.
\<close>

theorem payload_without_objects_changes_scene:
  "\<not> (children (fst (handleGenerateClick (\<lambda>req. Parsed scene_without_objects) no_coercion example_app))
        = children example_app \<and>
       background (fst (handleGenerateClick (\<lambda>req. Parsed scene_without_objects) no_coercion example_app))
        = background example_app)"
  by code_simp

subsection \<open>C2: one mesh for each descriptor of a recognized shape\<close>

text \<open>
  Claim C2. For a scene description that satisfies the contract, with \<open>N\<close> descriptors
  of a recognized shape and \<open>K\<close> descriptors of another shape, \<open>buildSceneFromData\<close>
  completes and leaves exactly \<open>N\<close> meshes in the group, whatever the group held
  before: the \<open>K\<close> others are skipped.
\<close>

theorem recognized_descriptors_counted:
  assumes "valid_scene d"
    and "N = length (filter (\<lambda>obj. recognized (field obj ''shape'')) (objects_of d))"
    and "K = length (filter (\<lambda>obj. \<not> recognized (field obj ''shape'')) (objects_of d))"
  shows "completed (buildSceneFromData c st d) \<and>
     length (children (state_of (buildSceneFromData c st d))) = N \<and>
     N + K = length (objects_of d)"
proof -
  have 1: "completed (buildSceneFromData c st d)"
    by (rule valid_scene_build(1)[OF assms(1)])
  have 2: "length (children (state_of (buildSceneFromData c st d))) = N"
    unfolding assms(2) using valid_scene_build(2)[OF assms(1), of c st]
    by (simp add: list_all2_lengthD)
  have 3: "N + K = length (objects_of d)"
    unfolding assms(2,3) by (rule sum_length_filter_compl)
  from 1 2 3 show ?thesis by simp
qed

text \<open>
  On the sample scene (a box, a pyramid, a sphere) and a group that held one mesh:
  two meshes are left.
\<close>

theorem recognized_descriptors_counted_witness:
  "valid_scene example_scene \<and>
   completed (buildSceneFromData no_coercion example_app example_scene) \<and>
   length (children (state_of (buildSceneFromData no_coercion example_app example_scene))) = 2 \<and>
   (2::nat) + 1 = length (objects_of example_scene)"
proof -
  have v: "valid_scene example_scene" by (rule example_scene_valid)
  have n: "2 = length (filter (\<lambda>obj. recognized (field obj ''shape'')) (objects_of example_scene))"
    by code_simp
  have k: "1 = length (filter (\<lambda>obj. \<not> recognized (field obj ''shape'')) (objects_of example_scene))"
    by code_simp
  from recognized_descriptors_counted[OF v n k, of no_coercion example_app] v
  show ?thesis by simp
qed

subsection \<open>C3: the geometry of each shape\<close>

text \<open>
  Claim C3. For a descriptor of the contract with scale \<open>(x, y, z)\<close>, the geometry of
  the mesh is: for a box, the dimensions \<open>x\<close>, \<open>y\<close>, \<open>z\<close>; for a sphere, the radius
  \<open>Math.max(x, y, z) / 2\<close>; for a cone, the radius \<open>x / 2\<close> and the height \<open>y\<close>; for
  a cylinder, the top radius \<open>x / 2\<close>, the bottom radius \<open>z / 2\<close> and the height \<open>y\<close>;
  for a torus, the radius \<open>x / 2\<close> and the tube radius \<open>y / 4\<close>. The cone and the
  torus do not depend on \<open>z\<close>. The quotients are those of the language's division on
  doubles, and the maximum is that of \<open>Math.max\<close>: on finite numbers the maximum is
  the largest of the three, and the quotient is the exact one unless it underflows (it
  is no multiple of 2 to the power -1074), where it is rounded
  (\<open>smallest_double_quartered\<close>).
\<close>

theorem geometry_of_shape:
  assumes "valid_descriptor obj"
    and "field obj ''scale'' = s"
    and "field s ''x'' = Num x" and "field s ''y'' = Num y" and "field s ''z'' = Num z"
    and "field obj ''shape'' = shape"
  shows "map_step geometry (add_object c obj) =
     (if shape = Str ''box'' then Built (BoxGeometry (Num x) (Num y) (Num z))
      else if shape = Str ''sphere'' then
        Built (SphereGeometry (divide_by (Math_max x y z) Two) 32 16)
      else if shape = Str ''cone'' then Built (ConeGeometry (divide_by x Two) (Num y) 32)
      else if shape = Str ''cylinder'' then
        Built (CylinderGeometry (divide_by x Two) (divide_by z Two) (Num y) 32)
      else if shape = Str ''torus'' then
        Built (TorusGeometry (divide_by x Two) (divide_by y Four) 16 100)
      else Skipped) \<and>
     (\<forall>a b e. Math_max (Finite a) (Finite b) (Finite e) = Finite (max a (max b e))) \<and>
     (\<forall>a k. a / 2 * subnormal_scale = of_int k \<longrightarrow> divide_by (Finite a) Two = Finite (a / 2)) \<and>
     (\<forall>a k. a / 4 * subnormal_scale = of_int k \<longrightarrow> divide_by (Finite a) Four = Finite (a / 4))"
proof -
  have m: "Math_max (Finite a) (Finite b) (Finite e) = Finite (max a (max b e))" for a b e
    by (simp add: Math_max_def max.assoc)
  have h: "divide_by (Finite a) Two = Finite (a / 2)"
    if "a / 2 * subnormal_scale = of_int k" for a k
    using divide_by_exact[of a Two k] that by simp
  have q: "divide_by (Finite a) Four = Finite (a / 4)"
    if "a / 4 * subnormal_scale = of_int k" for a k
    using divide_by_exact[of a Four k] that by simp
  from assms(1,2) have "valid_vector s" by (auto simp add: valid_descriptor_def)
  then have "is_object s" by (simp add: valid_vector_def)
  then obtain kvs where "s = Obj kvs" by (cases s) simp_all
  with assms(3-5) have
    g: "get s ''x'' = Some (Num x)" "get s ''y'' = Some (Num y)" "get s ''z'' = Some (Num z)"
    by (simp_all add: field_def)
  have "map_step geometry (add_object c obj) = make_geometry c shape s"
    unfolding add_object_valid(1)[OF assms(1)] assms(2) assms(6) by (rule refl)
  then show ?thesis
    unfolding make_geometry_numbers[OF g] using m h q by blast
qed

text \<open>
  The three examples of the claim: a box of scale (2, 3, 4) has the dimensions 2, 3, 4;
  a sphere of scale (2, 4, 6) has the radius 3; a cylinder of scale (2, 5, 8) has the
  top radius 1, the bottom radius 4 and the height 5.
\<close>

theorem geometry_of_shape_witness:
  "map_step geometry (add_object no_coercion (descriptor ''box'' ''#ff0000'' (vector 0 0 0) (vector 2 3 4)))
     = Built (BoxGeometry (Num (Finite 2)) (Num (Finite 3)) (Num (Finite 4))) \<and>
   map_step geometry (add_object no_coercion (descriptor ''sphere'' ''#ff0000'' (vector 0 0 0) (vector 2 4 6)))
     = Built (SphereGeometry (Finite 3) 32 16) \<and>
   map_step geometry (add_object no_coercion (descriptor ''cylinder'' ''#ff0000'' (vector 0 0 0) (vector 2 5 8)))
     = Built (CylinderGeometry (Finite 1) (Finite 4) (Num (Finite 5)) 32)"
proof -
  have v: "valid_descriptor (descriptor sh ''#ff0000'' (vector 0 0 0) (vector x y z))" for sh x y z
    by (simp add: valid_descriptor_def descriptor_def vector_def field_def valid_vector_def)
  have f: "field (descriptor sh ''#ff0000'' (vector 0 0 0) (vector x y z)) ''scale'' = vector x y z"
    "field (descriptor sh ''#ff0000'' (vector 0 0 0) (vector x y z)) ''shape'' = Str sh"
    "field (vector x y z) ''x'' = Num (Finite x)" "field (vector x y z) ''y'' = Num (Finite y)"
    "field (vector x y z) ''z'' = Num (Finite z)" for sh x y z
    by (simp_all add: descriptor_def vector_def field_def)
  have b: "map_step geometry (add_object no_coercion (descriptor sh ''#ff0000'' (vector 0 0 0) (vector x y z))) =
     (if Str sh = Str ''box'' then Built (BoxGeometry (Num (Finite x)) (Num (Finite y)) (Num (Finite z)))
      else if Str sh = Str ''sphere'' then
        Built (SphereGeometry (divide_by (Math_max (Finite x) (Finite y) (Finite z)) Two) 32 16)
      else if Str sh = Str ''cone'' then
        Built (ConeGeometry (divide_by (Finite x) Two) (Num (Finite y)) 32)
      else if Str sh = Str ''cylinder'' then
        Built (CylinderGeometry (divide_by (Finite x) Two) (divide_by (Finite z) Two)
          (Num (Finite y)) 32)
      else if Str sh = Str ''torus'' then
        Built (TorusGeometry (divide_by (Finite x) Two) (divide_by (Finite y) Four) 16 100)
      else Skipped)" for sh x y z
    by (rule conjunct1[OF geometry_of_shape[OF v f(1) f(3) f(4) f(5) f(2)]])
  have q: "divide_by (Finite 6) Two = Finite 3" "divide_by (Finite 2) Two = Finite 1"
    "divide_by (Finite 8) Two = Finite 4"
    using divide_by_integer[of 6 Two 3] divide_by_integer[of 2 Two 1]
      divide_by_integer[of 8 Two 4]
    by simp_all
  have "map_step geometry (add_object no_coercion (descriptor ''box'' ''#ff0000'' (vector 0 0 0) (vector 2 3 4)))
     = Built (BoxGeometry (Num (Finite 2)) (Num (Finite 3)) (Num (Finite 4)))"
    by (simp add: b)
  moreover have "map_step geometry (add_object no_coercion (descriptor ''sphere'' ''#ff0000'' (vector 0 0 0) (vector 2 4 6)))
     = Built (SphereGeometry (Finite 3) 32 16)"
    by (simp add: b Math_max_def q)
  moreover have "map_step geometry (add_object no_coercion (descriptor ''cylinder'' ''#ff0000'' (vector 0 0 0) (vector 2 5 8)))
     = Built (CylinderGeometry (Finite 1) (Finite 4) (Num (Finite 5)) 32)"
    by (simp add: b q)
  ultimately show ?thesis by simp
qed

subsection \<open>C4: when the export control is enabled\<close>

text \<open>
  Claim C4, as amended. For a generation attempt that was sent and whose parsed
  description \<open>buildSceneFromData\<close> accepted, the export control ends enabled exactly
  when the description lists at least one object (line 442 tests the length of
  \<open>sceneData.objects\<close>). So it is enabled whenever a mesh was added to the group.
\<close>

theorem export_enabled_by_objects:
  assumes "handleGenerateClick_begin st = (st1, Some req)"
    and "service req = Parsed d"
    and "completed (buildSceneFromData c st1 d)"
  shows "(\<not> download_disabled (fst (handleGenerateClick service c st))) = (objects_of d \<noteq> []) \<and>
     (children (fst (handleGenerateClick service c st)) \<noteq> [] \<longrightarrow>
        \<not> download_disabled (fst (handleGenerateClick service c st)))"
proof -
  have h: "fst (handleGenerateClick service c st) =
      setLoading False (state_of (buildSceneFromData c st1 d))"
    by (simp add: generate_sent[OF assms(1)] assms(2) resume_parsed assms(3))
  have a: "(\<not> download_disabled (fst (handleGenerateClick service c st))) = (objects_of d \<noteq> [])"
    unfolding h using begin_keeps(3)[OF assms(1)] assms(3)
    by (simp add: setLoading_def build_download)
  have "children (fst (handleGenerateClick service c st)) = []" if "objects_of d = []"
    unfolding h using that
    by (simp add: setLoading_def children_build split: option.splits)
  with a show ?thesis by blast
qed

text \<open>On the sample scene: two meshes are added and the control is enabled.\<close>

theorem export_enabled_by_objects_witness:
  "completed (buildSceneFromData no_coercion
     ((hideError (setLoading True example_app))\<lparr>download_disabled := True\<rparr>) example_scene) \<and>
   objects_of example_scene \<noteq> [] \<and>
   \<not> download_disabled (fst (handleGenerateClick (\<lambda>req. Parsed example_scene) no_coercion example_app))"
proof -
  have c: "completed (buildSceneFromData no_coercion
     ((hideError (setLoading True example_app))\<lparr>download_disabled := True\<rparr>) example_scene)"
    by (rule valid_scene_build(1)[OF example_scene_valid])
  have o: "objects_of example_scene \<noteq> []" by code_simp
  from export_enabled_by_objects[OF example_begin refl c] c o show ?thesis by simp
qed

text \<open>
  The claim as stated fails on a description whose only object has an unrecognized
  shape: the callback skips it, so no mesh is added, yet the description lists one
  object and the export control is enabled.
\<close>

theorem export_enabled_without_mesh:
  "\<not> ((\<not> download_disabled
          (fst (handleGenerateClick (\<lambda>req. Parsed scene_of_unrecognized) no_coercion example_app))) =
       (1 \<le> length (children
          (fst (handleGenerateClick (\<lambda>req. Parsed scene_of_unrecognized) no_coercion example_app)))))"
  by code_simp

subsection \<open>C5: the background of an accepted description\<close>

text \<open>
  Claim C5, as amended. When \<open>buildSceneFromData\<close> completes, the background is the
  color constructed from the description's \<open>backgroundColor\<close> when that value is truthy,
  and from the fixed dark default \<open>0x111111\<close> when it is missing or otherwise falsy
  (\<open>null\<close>, the empty string, zero, \<open>false\<close>). No other test of the value is made.
\<close>

theorem background_of_description:
  assumes "completed (buildSceneFromData c st d)"
  shows "background (state_of (buildSceneFromData c st d)) =
     THREE_Color (if truthy (field d ''backgroundColor'') then field d ''backgroundColor''
                  else default_background)"
  using assms unfolding buildSceneFromData_def field_def
  by (auto simp add: Let_def split: option.splits js.splits prod.splits bool.splits if_splits)

text \<open>On a description without \<open>backgroundColor\<close>: the default.\<close>

theorem background_of_description_witness:
  "completed (buildSceneFromData no_coercion example_app scene_without_background) \<and>
   background (state_of (buildSceneFromData no_coercion example_app scene_without_background)) =
     THREE_Color (Num (Finite 1118481))"
proof -
  have c: "completed (buildSceneFromData no_coercion example_app scene_without_background)"
    by code_simp
  from background_of_description[OF c] c show ?thesis
    by (simp add: field_def scene_without_background_def default_background_def)
qed

text \<open>
  The claim as stated fails on a \<open>backgroundColor\<close> that is a string but no color: the
  string is truthy, so it is what the color is constructed from, not the default.
\<close>

theorem invalid_background_not_default:
  "\<not> (background (state_of (buildSceneFromData no_coercion example_app scene_with_invalid_background))
        = THREE_Color default_background)"
  by code_simp

subsection \<open>C6: replacing the scene twice\<close>

text \<open>
  Claim C6. Applying \<open>buildSceneFromData\<close> a second time with the same description
  ends as the first application did and in the same state: the same meshes (so the same
  count, colors and positions) and the same background. This holds for every payload,
  the valid scene descriptions among them.
\<close>

theorem buildSceneFromData_twice:
  "buildSceneFromData c (state_of (buildSceneFromData c st d)) d = buildSceneFromData c st d"
  unfolding buildSceneFromData_def
  by (auto simp add: clear_children_empty Let_def
      split: option.splits js.splits prod.splits bool.splits)

theorem buildSceneFromData_twice_witness:
  "valid_scene example_scene \<and>
   buildSceneFromData no_coercion
     (state_of (buildSceneFromData no_coercion example_app example_scene)) example_scene =
   buildSceneFromData no_coercion example_app example_scene"
proof -
  have v: "valid_scene example_scene" by (rule example_scene_valid)
  from buildSceneFromData_twice[of no_coercion example_app example_scene] v
  show ?thesis by simp
qed

subsection \<open>C7: an empty request\<close>

text \<open>
  Claim C7. When the prompt is empty and no image is uploaded, the handler returns
  without a request to the service, an error message is shown (the one about the empty
  request, or the one about the missing key when there is no client), and the meshes
  and the background are untouched.
\<close>

theorem empty_request_rejected:
  assumes "prompt_value st = []" and "uploadedImage st = None"
  shows "snd (handleGenerateClick service c st) = None \<and>
     error_shown (fst (handleGenerateClick service c st)) \<and>
     error_text (fst (handleGenerateClick service c st)) =
       (if ai st = None then missing_key_message else empty_request_message) \<and>
     children (fst (handleGenerateClick service c st)) = children st \<and>
     background (fst (handleGenerateClick service c st)) = background st"
proof (cases "ai st")
  case None
  then have "handleGenerateClick_begin st =
      ((showError missing_key_message st)\<lparr>modal_shown := True\<rparr>, None)"
    by (simp add: handleGenerateClick_begin_def)
  then show ?thesis using None by (simp add: handleGenerateClick_def showError_def)
next
  case (Some key)
  with assms have "handleGenerateClick_begin st = (showError empty_request_message st, None)"
    by (simp add: handleGenerateClick_begin_def)
  then show ?thesis using Some by (simp add: handleGenerateClick_def showError_def)
qed

theorem empty_request_rejected_witness:
  "snd (handleGenerateClick (\<lambda>req. Parsed example_scene) no_coercion (example_app\<lparr>prompt_value := []\<rparr>)) = None \<and>
   error_shown (fst (handleGenerateClick (\<lambda>req. Parsed example_scene) no_coercion (example_app\<lparr>prompt_value := []\<rparr>))) \<and>
   error_text (fst (handleGenerateClick (\<lambda>req. Parsed example_scene) no_coercion (example_app\<lparr>prompt_value := []\<rparr>))) =
     empty_request_message \<and>
   children (fst (handleGenerateClick (\<lambda>req. Parsed example_scene) no_coercion (example_app\<lparr>prompt_value := []\<rparr>))) =
     children example_app"
proof -
  have p: "prompt_value (example_app\<lparr>prompt_value := []\<rparr>) = []" by simp
  have u: "uploadedImage (example_app\<lparr>prompt_value := []\<rparr>) = None" by (simp add: example_app_def)
  have a: "ai (example_app\<lparr>prompt_value := []\<rparr>) = Some ''key''" by (simp add: example_app_def)
  from empty_request_rejected[OF p u, of "\<lambda>req. Parsed example_scene" no_coercion] a
  show ?thesis by simp
qed

subsection \<open>C8: the type of an uploaded image\<close>

text \<open>
  Claim C8. A file offered as image input is read exactly when its MIME type is
  \<open>image/jpeg\<close>, \<open>image/png\<close> or \<open>image/webp\<close>. When it is, the handler changes
  nothing by itself, and once the reader has produced the data URL of a base64 payload,
  the stored image is that payload paired with the file's MIME type. When it is not,
  nothing is read, the error message is shown and the stored image is unchanged.
\<close>

theorem image_type_decides:
  "(snd (handleImageUpload (Some f) st) = Some f) =
     (file_type f = ''image/jpeg'' \<or> file_type f = ''image/png'' \<or> file_type f = ''image/webp'') \<and>
   (snd (handleImageUpload (Some f) st) = Some f \<longrightarrow>
      fst (handleImageUpload (Some f) st) = st \<and>
      (CHR '','' \<notin> set payload \<longrightarrow>
         uploadedImage (reader_onload f (data_url (file_type f) payload) st) =
           Some \<lparr>mimeType = file_type f, data = Some payload\<rparr>)) \<and>
   (snd (handleImageUpload (Some f) st) \<noteq> Some f \<longrightarrow>
      snd (handleImageUpload (Some f) st) = None \<and>
      error_shown (fst (handleImageUpload (Some f) st)) \<and>
      error_text (fst (handleImageUpload (Some f) st)) = invalid_image_message \<and>
      uploadedImage (fst (handleImageUpload (Some f) st)) = uploadedImage st)"
proof (cases "file_type f \<in> set accepted_types")
  case True
  then have t: "file_type f = ''image/jpeg'' \<or> file_type f = ''image/png'' \<or>
      file_type f = ''image/webp''"
    by (simp add: accepted_types_def)
  have h: "handleImageUpload (Some f) st = (st, Some f)"
    using True by (simp add: handleImageUpload_def)
  have r: "uploadedImage (reader_onload f (data_url (file_type f) payload) st) =
           Some \<lparr>mimeType = file_type f, data = Some payload\<rparr>"
    if "CHR '','' \<notin> set payload"
    by (simp add: reader_onload_def data_url_split[OF accepted_no_comma[OF True] that])
  from t h r show ?thesis by simp
next
  case False
  then have t: "\<not> (file_type f = ''image/jpeg'' \<or> file_type f = ''image/png'' \<or>
      file_type f = ''image/webp'')"
    by (simp add: accepted_types_def)
  have h: "handleImageUpload (Some f) st = (showError invalid_image_message st, None)"
    using False by (simp add: handleImageUpload_def)
  from t show ?thesis unfolding h by (simp add: showError_def)
qed

text \<open>A PNG file is read and stored; a PDF file is refused.\<close>

theorem image_type_decides_witness:
  "snd (handleImageUpload (Some example_file) example_app) = Some example_file \<and>
   uploadedImage (reader_onload example_file (data_url ''image/png'' ''aGVsbG8='') example_app) =
     Some \<lparr>mimeType = ''image/png'', data = Some ''aGVsbG8=''\<rparr> \<and>
   snd (handleImageUpload (Some example_pdf) example_app) = None \<and>
   error_shown (fst (handleImageUpload (Some example_pdf) example_app)) \<and>
   uploadedImage (fst (handleImageUpload (Some example_pdf) example_app)) = uploadedImage example_app"
proof -
  have t: "file_type example_file = ''image/png''" by (simp add: example_file_def)
  have u: "file_type example_pdf = ''application/pdf''" by (simp add: example_pdf_def)
  have n: "CHR '','' \<notin> set ''aGVsbG8=''" by simp
  from image_type_decides[of example_file example_app "''aGVsbG8=''"] t n
  have a: "snd (handleImageUpload (Some example_file) example_app) = Some example_file \<and>
     uploadedImage (reader_onload example_file (data_url ''image/png'' ''aGVsbG8='') example_app) =
       Some \<lparr>mimeType = ''image/png'', data = Some ''aGVsbG8=''\<rparr>"
    by simp
  from image_type_decides[of example_pdf example_app "[]"] u
  have b: "snd (handleImageUpload (Some example_pdf) example_app) = None \<and>
     error_shown (fst (handleImageUpload (Some example_pdf) example_app)) \<and>
     uploadedImage (fst (handleImageUpload (Some example_pdf) example_app)) = uploadedImage example_app"
    by simp
  from a b show ?thesis by simp
qed

subsection \<open>C9: what every mesh carries\<close>

text \<open>
  Claim C9. After \<open>buildSceneFromData\<close> on a scene description of the contract,
  whatever the group held before, the meshes of the group are, in order, one for each
  descriptor of a recognized shape, and each mesh carries its own descriptor: its
  position is the descriptor's position, its rotation and scale are those the
  constructor gave it (no rotation, unit scale), its material's color is the
  descriptor's color, and its roughness and metalness are the constants that the
  literals 0.5 and 0.1 denote.
\<close>

theorem meshes_carry_their_descriptors:
  assumes "valid_scene d"
  shows "list_all2 carries
     (filter (\<lambda>obj. recognized (field obj ''shape'')) (objects_of d))
     (children (state_of (buildSceneFromData c st d)))"
  by (rule valid_scene_build(2)[OF assms])

text \<open>
  On the sample scene, from a group that held another mesh: the two meshes are those of
  the box and of the sphere, in this order, at the positions (0, 1, 0) and (0, 0, -2).
\<close>

theorem meshes_carry_their_descriptors_witness:
  "valid_scene example_scene \<and>
   filter (\<lambda>obj. recognized (field obj ''shape'')) (objects_of example_scene) =
     [descriptor ''box'' ''#ff0000'' (vector 0 1 0) (vector 2 3 4),
      descriptor ''sphere'' ''#0000ff'' (vector 0 0 (-2)) (vector 2 4 6)] \<and>
   map position (children (state_of (buildSceneFromData no_coercion example_app example_scene))) =
     [(Num (Finite 0), Num (Finite 1), Num (Finite 0)),
      (Num (Finite 0), Num (Finite 0), Num (Finite (-2)))] \<and>
   map (color \<circ> material)
       (children (state_of (buildSceneFromData no_coercion example_app example_scene))) =
     [THREE_Color (Str ''#ff0000''), THREE_Color (Str ''#0000ff'')]"
proof -
  have f: "filter (\<lambda>obj. recognized (field obj ''shape'')) (objects_of example_scene) =
     [descriptor ''box'' ''#ff0000'' (vector 0 1 0) (vector 2 3 4),
      descriptor ''sphere'' ''#0000ff'' (vector 0 0 (-2)) (vector 2 4 6)]"
    by (simp add: example_scene_def objects_of_def field_def descriptor_def recognized_def)
  from meshes_carry_their_descriptors[OF example_scene_valid, of no_coercion example_app]
  have "list_all2 carries
     [descriptor ''box'' ''#ff0000'' (vector 0 1 0) (vector 2 3 4),
      descriptor ''sphere'' ''#0000ff'' (vector 0 0 (-2)) (vector 2 4 6)]
     (children (state_of (buildSceneFromData no_coercion example_app example_scene)))"
    by (simp only: f)
  then obtain m1 m2 where
    ch: "children (state_of (buildSceneFromData no_coercion example_app example_scene)) = [m1, m2]"
    and c1: "carries (descriptor ''box'' ''#ff0000'' (vector 0 1 0) (vector 2 3 4)) m1"
    and c2: "carries (descriptor ''sphere'' ''#0000ff'' (vector 0 0 (-2)) (vector 2 4 6)) m2"
    by (auto simp add: list_all2_Cons1)
  from c1 have p1: "position m1 = (Num (Finite 0), Num (Finite 1), Num (Finite 0))"
    "color (material m1) = THREE_Color (Str ''#ff0000'')"
    by (simp_all add: carries_def descriptor_def vector_def field_def)
  from c2 have p2: "position m2 = (Num (Finite 0), Num (Finite 0), Num (Finite (-2)))"
    "color (material m2) = THREE_Color (Str ''#0000ff'')"
    by (simp_all add: carries_def descriptor_def vector_def field_def)
  from f ch p1 p2 example_scene_valid show ?thesis by simp
qed

subsection \<open>C10: the export control after a failed generation\<close>

text \<open>
  Claim C10. For a generation attempt that was sent: when it fails, the export control
  ends disabled; when the call rejected or the response text was not JSON, the meshes of
  the previous generation are still in the group; and the export control ends enabled
  exactly when the payload was parsed, \<open>buildSceneFromData\<close> completed and the
  description lists at least one object.
\<close>

theorem failed_generation_disables_export:
  assumes "handleGenerateClick_begin st = (st1, Some req)"
  shows "(fails c (service req) st1 \<longrightarrow> download_disabled (fst (handleGenerateClick service c st))) \<and>
     (service req = ServiceError \<or> service req = BadJSON \<longrightarrow>
        children (fst (handleGenerateClick service c st)) = children st) \<and>
     (\<not> download_disabled (fst (handleGenerateClick service c st))) =
        (case service req of
           Parsed d \<Rightarrow> completed (buildSceneFromData c st1 d) \<and> objects_of d \<noteq> []
         | _ \<Rightarrow> False)"
proof -
  note h = generate_sent[OF assms(1), of service c]
  note k = begin_keeps[OF assms(1)]
  have d: "(\<not> download_disabled (fst (handleGenerateClick service c st))) =
        (case service req of
           Parsed d \<Rightarrow> completed (buildSceneFromData c st1 d) \<and> objects_of d \<noteq> []
         | _ \<Rightarrow> False)"
    unfolding h resume_download using k(3) by (cases "service req") simp_all
  have a: "download_disabled (fst (handleGenerateClick service c st))"
    if "fails c (service req) st1"
    using that d by (cases "service req") (simp_all add: fails_def)
  have b: "children (fst (handleGenerateClick service c st)) = children st"
    if "service req = ServiceError \<or> service req = BadJSON"
    unfolding h resume_not_parsed[OF that]
    by (simp add: setLoading_def showError_def k)
  from a b d show ?thesis by blast
qed

text \<open>
  On the sample state, whose group holds a mesh and whose export control is enabled: a
  service error leaves the mesh and disables the control.
\<close>

theorem failed_generation_disables_export_witness:
  "download_disabled (fst (handleGenerateClick (\<lambda>req. ServiceError) no_coercion example_app)) \<and>
   children (fst (handleGenerateClick (\<lambda>req. ServiceError) no_coercion example_app)) = [example_mesh] \<and>
   download_disabled example_app = False"
proof -
  have f: "fails no_coercion ((\<lambda>req. ServiceError) [Text ''a red cube''])
             ((hideError (setLoading True example_app))\<lparr>download_disabled := True\<rparr>)"
    by (simp add: fails_def)
  have c: "children example_app = [example_mesh]" "download_disabled example_app = False"
    by (simp_all add: example_app_def)
  from failed_generation_disables_export[OF example_begin, of no_coercion "\<lambda>req. ServiceError"] f c
  show ?thesis by simp
qed

end
